theory Spec2Isabelle
  imports Complex_Main
begin

section \<open>Module state of the API server\<close>

text \<open>
  The embedded functions are those of \<^verbatim>\<open>src/api_server.py\<close>; the copies of
  \<^verbatim>\<open>validate_license_key\<close>, \<^verbatim>\<open>rate_limit_check\<close> and
  \<^verbatim>\<open>require_license\<close> in \<^verbatim>\<open>src/app.py\<close> consist of the same statements.

  A credential is whatever \<^verbatim>\<open>request.headers.get('X-License-Key')\<close> returns: Python's
  \<^verbatim>\<open>None\<close> when the header is absent, a \<^verbatim>\<open>str\<close> otherwise.
  \<^verbatim>\<open>time.time()\<close> is an input of the model, a real number of seconds.
\<close>

type_synonym pykey = "string option"

text \<open>A value of \<^verbatim>\<open>request_counts\<close>: \<^verbatim>\<open>{'count': ..., 'timestamp': ...}\<close>.\<close>

record entry =
  count :: int
  timestamp :: real

type_synonym counts = "pykey \<rightharpoonup> entry"

text \<open>The module-level names that the functions below read or assign.\<close>

record globals =
  POLYGON_API_KEY :: string
  FINNHUB_API_KEY :: pykey
  VALID_LICENSE_KEYS :: "string list"
  request_counts :: counts

definition RATE_LIMIT_REQUESTS :: int where
  "RATE_LIMIT_REQUESTS = 100"

definition RATE_LIMIT_WINDOW :: real where
  "RATE_LIMIT_WINDOW = 60"

datatype pyerror = UnboundLocalError

subsection \<open>Configuration of the allow-list\<close>

text \<open>
  \<^verbatim>\<open>str.split(sep)\<close> for a one-character separator: the pieces between the
  separators, empty pieces kept, so the result always has at least one piece.
\<close>

fun str_split :: "char \<Rightarrow> string \<Rightarrow> string list" where
  "str_split sep [] = [[]]"
| "str_split sep (c # cs) =
     (if c = sep then [] # str_split sep cs
      else (case str_split sep cs of
              [] \<Rightarrow> [[c]]
            | w # ws \<Rightarrow> (c # w) # ws))"

text \<open>
  \<^verbatim>\<open>os.getenv('VALID_LICENSE_KEYS', 'test-license-123,prod-license-456').split(',')\<close>,
  the environment variable given as an option.
\<close>

definition load_valid_license_keys :: "string option \<Rightarrow> string list" where
  "load_valid_license_keys env =
     str_split (CHR '','')
       (case env of None \<Rightarrow> ''test-license-123,prod-license-456'' | Some v \<Rightarrow> v)"

section \<open>License gate\<close>

text \<open>Python's truth value of a credential: \<^verbatim>\<open>None\<close> and \<^verbatim>\<open>''\<close> are false.\<close>

definition truthy :: "pykey \<Rightarrow> bool" where
  "truthy k = (case k of None \<Rightarrow> False | Some s \<Rightarrow> s \<noteq> [])"

text \<open>\<^verbatim>\<open>license_key in VALID_LICENSE_KEYS\<close>: equality with an element of the list.\<close>

definition key_in :: "pykey \<Rightarrow> string list \<Rightarrow> bool" where
  "key_in k ks = (case k of None \<Rightarrow> False | Some s \<Rightarrow> s \<in> set ks)"

definition validate_license_key :: "pykey \<Rightarrow> globals \<Rightarrow> bool \<times> globals" where
  "validate_license_key license_key g =
     (if \<not> truthy license_key then (False, g)
      else (key_in license_key (VALID_LICENSE_KEYS g), g))"

section \<open>Rate limiter\<close>

text \<open>
  \<^verbatim>\<open>rate_limit_check\<close> assigns to the name \<^verbatim>\<open>request_counts\<close> and has no
  \<^verbatim>\<open>global\<close> statement, so in its body the name is a local variable of the call
  frame: every read and every write of \<^verbatim>\<open>request_counts\<close> in the function goes to that
  local, never to the module-level dictionary. A local is unbound until its first
  assignment, and reading an unbound local raises \<^verbatim>\<open>UnboundLocalError\<close>.
\<close>

definition load_local :: "'a option \<Rightarrow> pyerror + 'a" where
  "load_local v = (case v of None \<Rightarrow> Inl UnboundLocalError | Some x \<Rightarrow> Inr x)"

text \<open>The comprehension \<^verbatim>\<open>{k: v for k, v in d.items() if v['timestamp'] > window_start}\<close>.\<close>

definition prune :: "real \<Rightarrow> counts \<Rightarrow> counts" where
  "prune window_start d =
     (\<lambda>k. case d k of
             None \<Rightarrow> None
           | Some v \<Rightarrow> if timestamp v > window_start then Some v else None)"

text \<open>
  The statements of the function body, run in a frame whose local
  \<^verbatim>\<open>request_counts\<close> is bound as \<open>frame\<close> says (\<open>None\<close>: unbound). The value is the
  exception raised, or the returned boolean with the local dictionary at the return.
\<close>

definition rate_limit_body :: "counts option \<Rightarrow> pykey \<Rightarrow> real \<Rightarrow> pyerror + (bool \<times> counts)" where
  "rate_limit_body frame license_key current_time =
     (let window_start = current_time - RATE_LIMIT_WINDOW in
      case load_local frame of
        Inl e \<Rightarrow> Inl e
      | Inr d0 \<Rightarrow>
          (let d = prune window_start d0 in
           case d license_key of
             None \<Rightarrow>
               Inr (True, d(license_key \<mapsto> \<lparr>count = 1, timestamp = current_time\<rparr>))
           | Some v \<Rightarrow>
               if timestamp v < window_start
               then Inr (True, d(license_key \<mapsto> \<lparr>count = 1, timestamp = current_time\<rparr>))
               else if count v \<ge> RATE_LIMIT_REQUESTS then Inr (False, d)
               else Inr (True, d(license_key \<mapsto> v\<lparr>count := count v + 1\<rparr>))))"

text \<open>
  A call: the frame starts with the local unbound; the module state is passed through,
  since no statement of the body refers to the module-level dictionary.
\<close>

definition rate_limit_check :: "pykey \<Rightarrow> real \<Rightarrow> globals \<Rightarrow> (pyerror + bool) \<times> globals" where
  "rate_limit_check license_key current_time g =
     (case rate_limit_body None license_key current_time of
        Inl e \<Rightarrow> (Inl e, g)
      | Inr (allowed, d) \<Rightarrow> (Inr allowed, g))"

text \<open>
  The algorithm in the words of the specification, on the shared map: an absent or
  expired entry is reset and the call allowed; a full window is rejected; otherwise the
  count is incremented and the call allowed.
\<close>

definition rate_limit_spec :: "pykey \<Rightarrow> real \<Rightarrow> counts \<Rightarrow> bool \<times> counts" where
  "rate_limit_spec credential now m =
     (case m credential of
        None \<Rightarrow> (True, m(credential \<mapsto> \<lparr>count = 1, timestamp = now\<rparr>))
      | Some v \<Rightarrow>
          if timestamp v < now - RATE_LIMIT_WINDOW
          then (True, m(credential \<mapsto> \<lparr>count = 1, timestamp = now\<rparr>))
          else if count v \<ge> RATE_LIMIT_REQUESTS then (False, m)
          else (True, m(credential \<mapsto> v\<lparr>count := count v + 1\<rparr>)))"

section \<open>Requests and responses\<close>

datatype http_method = GET | HEAD | OPTIONS | POST | PUT | PATCH | DELETE

text \<open>
  What the handlers read of a request: its method, its path, the value of
  \<^verbatim>\<open>request.headers.get('X-License-Key')\<close> and the query arguments.
\<close>

record request =
  meth :: http_method
  path :: string
  x_license_key :: pykey
  args :: "(string \<times> string) list"

text \<open>The two clock readings: \<^verbatim>\<open>time.time()\<close> and \<^verbatim>\<open>datetime.now().isoformat()\<close>.\<close>

record clock =
  time_time :: real
  now_iso :: string

datatype jvalue = JStr string | JBool bool

text \<open>
  A response body: a JSON object written by this program, a page written by the
  framework, or text that comes from elsewhere (an upstream payload, a static file).
\<close>

datatype payload = Json "(string \<times> jvalue) list" | FrameworkPage | Raw string

record response =
  status :: nat
  body :: payload

text \<open>\<^verbatim>\<open>return jsonify({'error': msg}), code\<close>\<close>

definition error_response :: "string \<Rightarrow> nat \<Rightarrow> response" where
  "error_response msg code = \<lparr>status = code, body = Json [(''error'', JStr msg)]\<rparr>"

section \<open>The decorator\<close>

text \<open>
  \<^verbatim>\<open>require_license(f)\<close>: the decorated function. The view \<open>f\<close> calls the upstream
  provider; its response is a parameter. An exception of \<^verbatim>\<open>rate_limit_check\<close> is not
  caught here and leaves the decorated function.
\<close>

definition require_license ::
  "(request \<Rightarrow> response) \<Rightarrow> request \<Rightarrow> clock \<Rightarrow> globals \<Rightarrow> (pyerror + response) \<times> globals" where
  "require_license f req clk g =
     (let license_key = x_license_key req in
      case validate_license_key license_key g of
        (valid, g1) \<Rightarrow>
          if \<not> valid then (Inr (error_response ''Invalid license key'' 401), g1)
          else (case rate_limit_check license_key (time_time clk) g1 of
                  (Inl e, g2) \<Rightarrow> (Inl e, g2)
                | (Inr allowed, g2) \<Rightarrow>
                    if \<not> allowed then (Inr (error_response ''Rate limit exceeded'' 429), g2)
                    else (Inr (f req), g2)))"

section \<open>Views, routes and dispatch\<close>

datatype endpoint =
    Home | Health | Test | Gainers | Losers
  | Historical string | Float string | News string | Volume string
  | Static string

text \<open>\<^verbatim>\<open>health_check\<close> of \<^verbatim>\<open>api_server.py\<close>.\<close>

definition health_check :: "clock \<Rightarrow> globals \<Rightarrow> response" where
  "health_check clk g =
     \<lparr>status = 200,
      body = Json [(''status'', JStr ''healthy''),
                   (''timestamp'', JStr (now_iso clk)),
                   (''polygon_api_configured'', JBool (POLYGON_API_KEY g \<noteq> [])),
                   (''finnhub_api_configured'', JStr ''local_gui''),
                   (''message'', JStr ''Finnhub API key is handled locally in the GUI'')]\<rparr>"

text \<open>\<^verbatim>\<open>health_check\<close> of \<^verbatim>\<open>app.py\<close>.\<close>

definition app_health_check :: "clock \<Rightarrow> globals \<Rightarrow> response" where
  "app_health_check clk g =
     \<lparr>status = 200,
      body = Json [(''status'', JStr ''healthy''),
                   (''timestamp'', JStr (now_iso clk)),
                   (''polygon_api_configured'', JBool (POLYGON_API_KEY g \<noteq> [])),
                   (''finnhub_api_configured'', JBool (truthy (FINNHUB_API_KEY g)))]\<rparr>"

text \<open>The error handlers registered by \<^verbatim>\<open>api_server.py\<close>.\<close>

definition not_found :: response where
  "not_found = error_response ''Endpoint not found'' 404"

definition internal_error :: response where
  "internal_error = error_response ''Internal server error'' 500"

text \<open>A response of the framework where the application registers no handler.\<close>

definition framework_response :: "nat \<Rightarrow> response" where
  "framework_response code = \<lparr>status = code, body = FrameworkPage\<rparr>"

subsection \<open>URL rules\<close>

fun after_prefix :: "string \<Rightarrow> string \<Rightarrow> string option" where
  "after_prefix [] s = Some s"
| "after_prefix (p # ps) [] = None"
| "after_prefix (p # ps) (c # cs) = (if p = c then after_prefix ps cs else None)"

text \<open>A rule \<^verbatim>\<open>prefix<symbol>\<close>: the variable part is one non-empty path segment.\<close>

definition symbol_rule :: "string \<Rightarrow> string \<Rightarrow> string option" where
  "symbol_rule prefix p =
     (case after_prefix prefix p of
        None \<Rightarrow> None
      | Some symbol \<Rightarrow> if symbol \<noteq> [] \<and> CHR ''/'' \<notin> set symbol then Some symbol else None)"

text \<open>
  The rule \<^verbatim>\<open>/static/<path:filename>\<close>, which the framework adds to every application:
  the variable part is non-empty, does not begin with a slash and may contain slashes.
\<close>

definition static_rule :: "string \<Rightarrow> string option" where
  "static_rule p =
     (case after_prefix ''/static/'' p of
        None \<Rightarrow> None
      | Some f \<Rightarrow> if f \<noteq> [] \<and> hd f \<noteq> CHR ''/'' then Some f else None)"

text \<open>The \<^verbatim>\<open>@app.route\<close> rules of \<^verbatim>\<open>api_server.py\<close>.\<close>

definition url_map :: "string \<Rightarrow> endpoint option" where
  "url_map p =
     (if p = ''/api/health'' then Some Health
      else if p = ''/api/gainers'' then Some Gainers
      else if p = ''/api/losers'' then Some Losers
      else case symbol_rule ''/api/historical/'' p of Some symbol \<Rightarrow> Some (Historical symbol) | None \<Rightarrow>
       (case symbol_rule ''/api/float/'' p of Some symbol \<Rightarrow> Some (Float symbol) | None \<Rightarrow>
       (case symbol_rule ''/api/news/'' p of Some symbol \<Rightarrow> Some (News symbol) | None \<Rightarrow>
       (case symbol_rule ''/api/volume/'' p of Some symbol \<Rightarrow> Some (Volume symbol) | None \<Rightarrow>
       (case static_rule p of Some f \<Rightarrow> Some (Static f) | None \<Rightarrow> None)))))"

text \<open>The \<^verbatim>\<open>@app.route\<close> rules of \<^verbatim>\<open>app.py\<close>.\<close>

definition app_url_map :: "string \<Rightarrow> endpoint option" where
  "app_url_map p =
     (if p = ''/'' then Some Home
      else if p = ''/api/health'' then Some Health
      else if p = ''/api/gainers'' then Some Gainers
      else if p = ''/api/test'' then Some Test
      else case static_rule p of Some f \<Rightarrow> Some (Static f) | None \<Rightarrow> None)"

subsection \<open>View functions\<close>

text \<open>The views that carry the \<^verbatim>\<open>@require_license\<close> decorator in \<^verbatim>\<open>api_server.py\<close>.\<close>

fun is_protected :: "endpoint \<Rightarrow> bool" where
  "is_protected Gainers = True"
| "is_protected Losers = True"
| "is_protected (Historical symbol) = True"
| "is_protected (Float symbol) = True"
| "is_protected (News symbol) = True"
| "is_protected (Volume symbol) = True"
| "is_protected ep = False"

text \<open>
  The function registered for an endpoint. \<open>V\<close> gives the responses of the views whose
  bodies call the upstream provider or read a file; none of them assigns to
  \<^verbatim>\<open>request_counts\<close>.
\<close>

definition view_function ::
  "(endpoint \<Rightarrow> request \<Rightarrow> response) \<Rightarrow> endpoint \<Rightarrow> request \<Rightarrow> clock \<Rightarrow> globals
     \<Rightarrow> (pyerror + response) \<times> globals" where
  "view_function V ep req clk g =
     (if ep = Health then (Inr (health_check clk g), g)
      else if is_protected ep then require_license (V ep) req clk g
      else (Inr (V ep req), g))"

text \<open>
  In \<^verbatim>\<open>app.py\<close> only \<^verbatim>\<open>get_gainers\<close> is decorated; \<open>V\<close> gives the responses of the
  views other than the health check.
\<close>

definition app_view_function ::
  "(endpoint \<Rightarrow> request \<Rightarrow> response) \<Rightarrow> endpoint \<Rightarrow> request \<Rightarrow> clock \<Rightarrow> globals
     \<Rightarrow> (pyerror + response) \<times> globals" where
  "app_view_function V ep req clk g =
     (if ep = Health then (Inr (app_health_check clk g), g)
      else if ep = Gainers then require_license (V ep) req clk g
      else (Inr (V ep req), g))"

subsection \<open>Dispatch\<close>

text \<open>
  The path that the framework's router matches: the leading slashes of the request path
  are replaced by one (\<^verbatim>\<open>"/" + path_info.lstrip("/")\<close>; an empty path stays empty).
\<close>

definition path_part :: "string \<Rightarrow> string" where
  "path_part p = (if p = [] then [] else CHR ''/'' # dropWhile (\<lambda>c. c = CHR ''/'') p)"

text \<open>
  The router's slash merging, \<^verbatim>\<open>re.sub("/{2,}?", "/", path)\<close>: from left to right, every
  pair of adjacent slashes becomes one slash.
\<close>

fun merge_slashes :: "string \<Rightarrow> string" where
  "merge_slashes (a # b # cs) =
     (if a = CHR ''/'' \<and> b = CHR ''/'' then CHR ''/'' # merge_slashes cs
      else a # merge_slashes (b # cs))"
| "merge_slashes cs = cs"

text \<open>A path with two adjacent slashes somewhere.\<close>

fun repeated_slash :: "string \<Rightarrow> bool" where
  "repeated_slash (a # b # cs) = ((a = CHR ''/'' \<and> b = CHR ''/'') \<or> repeated_slash (b # cs))"
| "repeated_slash cs = False"

text \<open>
  The framework's request dispatch, for an application given by its URL rules, its view
  functions and its handlers for 404 and 500. Every rule allows GET, and with it HEAD and
  OPTIONS, the latter answered by the framework; another method on a matching path is
  answered with 405. A path that matches no rule is matched again with its slashes
  merged: if a rule matches then, the framework answers with a redirect (308) to the
  merged path, and otherwise the request goes to the 404 handler. An exception that
  leaves a view goes to the 500 handler.
\<close>

definition dispatch_with ::
  "(string \<Rightarrow> endpoint option)
     \<Rightarrow> (endpoint \<Rightarrow> request \<Rightarrow> clock \<Rightarrow> globals \<Rightarrow> (pyerror + response) \<times> globals)
     \<Rightarrow> response \<Rightarrow> response
     \<Rightarrow> request \<Rightarrow> clock \<Rightarrow> globals \<Rightarrow> response \<times> globals" where
  "dispatch_with rules views on404 on500 req clk g =
     (let p = path_part (path req) in
      case rules p of
        None \<Rightarrow>
          (case rules (merge_slashes p) of
             None \<Rightarrow> (on404, g)
           | Some ep \<Rightarrow>
               if meth req = GET \<or> meth req = HEAD \<or> meth req = OPTIONS
               then (framework_response 308, g)
               else (framework_response 405, g))
      | Some ep \<Rightarrow>
          if meth req = OPTIONS then (framework_response 200, g)
          else if meth req \<noteq> GET \<and> meth req \<noteq> HEAD then (framework_response 405, g)
          else (case views ep req clk g of
                  (Inl e, g') \<Rightarrow> (on500, g')
                | (Inr r, g') \<Rightarrow> (r, g')))"

text \<open>The application of \<^verbatim>\<open>api_server.py\<close>.\<close>

definition dispatch ::
  "(endpoint \<Rightarrow> request \<Rightarrow> response) \<Rightarrow> request \<Rightarrow> clock \<Rightarrow> globals \<Rightarrow> response \<times> globals" where
  "dispatch V = dispatch_with url_map (view_function V) not_found internal_error"

text \<open>The application of \<^verbatim>\<open>app.py\<close>, which registers no error handler.\<close>

definition app_dispatch ::
  "(endpoint \<Rightarrow> request \<Rightarrow> response) \<Rightarrow> request \<Rightarrow> clock \<Rightarrow> globals \<Rightarrow> response \<times> globals" where
  "app_dispatch V =
     dispatch_with app_url_map (app_view_function V) (framework_response 404) (framework_response 500)"

text \<open>Requests served one after the other, each with its clock readings.\<close>

fun serve_all ::
  "(endpoint \<Rightarrow> request \<Rightarrow> response) \<Rightarrow> (request \<times> clock) list \<Rightarrow> globals
     \<Rightarrow> response list \<times> globals" where
  "serve_all V [] g = ([], g)"
| "serve_all V ((req, clk) # rest) g =
     (case dispatch V req clk g of
        (r, g') \<Rightarrow> (case serve_all V rest g' of (rs, g'') \<Rightarrow> (r # rs, g'')))"

section \<open>States and inputs of the properties\<close>

text \<open>The module state after start-up with an empty environment.\<close>

definition fresh_globals :: globals where
  "fresh_globals =
     \<lparr>POLYGON_API_KEY = [], FINNHUB_API_KEY = None,
      VALID_LICENSE_KEYS = load_valid_license_keys None,
      request_counts = Map.empty\<rparr>"

text \<open>A request for the gainers with the first default license key.\<close>

definition gainers_request :: request where
  "gainers_request =
     \<lparr>meth = GET, path = ''/api/gainers'',
      x_license_key = Some ''test-license-123'', args = []\<rparr>"

text \<open>A request for the health endpoint; the properties vary its license header.\<close>

definition health_request :: request where
  "health_request = \<lparr>meth = GET, path = ''/api/health'', x_license_key = None, args = []\<rparr>"

text \<open>\<open>n\<close> such requests, half a second apart from time 0.\<close>

definition burst :: "nat \<Rightarrow> (request \<times> clock) list" where
  "burst n = map (\<lambda>i. (gainers_request, \<lparr>time_time = real i / 2, now_iso = []\<rparr>)) [0..<n]"

text \<open>A module state in which the first default key has used up the window that began at 0.\<close>

definition exhausted_globals :: globals where
  "exhausted_globals =
     fresh_globals\<lparr>request_counts :=
       [Some ''test-license-123'' \<mapsto> \<lparr>count = 100, timestamp = 0\<rparr>]\<rparr>"

text \<open>
  What the views return is an input of the model. The examples use the table in which
  every view answers as \<^verbatim>\<open>get_gainers\<close> does when the upstream provider cannot be
  reached; they dispatch to no other view.
\<close>

definition gainers_down :: "endpoint \<Rightarrow> request \<Rightarrow> response" where
  "gainers_down ep req = error_response ''Failed to fetch gainers'' 500"

text \<open>Two clock readings, ten seconds apart.\<close>

definition clock_a :: clock where
  "clock_a = \<lparr>time_time = 0, now_iso = ''2024-01-02T09:30:00''\<rparr>"

definition clock_b :: clock where
  "clock_b = \<lparr>time_time = 10, now_iso = ''2024-01-02T09:30:10''\<rparr>"





text \<open>A JSON body without its \<^verbatim>\<open>timestamp\<close> member.\<close>

fun without_timestamp :: "payload \<Rightarrow> payload" where
  "without_timestamp (Json members) = Json (filter (\<lambda>(name, v). name \<noteq> ''timestamp'') members)"
| "without_timestamp b = b"

section \<open>Helper lemmas\<close>

text \<open>
  Every call of \<^verbatim>\<open>rate_limit_check\<close> ends at the pruning line: the comprehension reads the
  local \<^verbatim>\<open>request_counts\<close> before anything has been assigned to it.
\<close>

lemma rate_limit_check_raises:
  "rate_limit_check k now g = (Inl UnboundLocalError, g)"
  by (simp add: rate_limit_check_def rate_limit_body_def load_local_def)

lemma require_license_valid:
  "truthy (x_license_key req) \<Longrightarrow> key_in (x_license_key req) (VALID_LICENSE_KEYS g)
   \<Longrightarrow> require_license f req clk g = (Inl UnboundLocalError, g)"
  by (simp add: require_license_def validate_license_key_def rate_limit_check_raises Let_def)

lemma require_license_invalid:
  "\<not> key_in (x_license_key req) (VALID_LICENSE_KEYS g)
   \<Longrightarrow> require_license f req clk g = (Inr (error_response ''Invalid license key'' 401), g)"
  by (simp add: require_license_def validate_license_key_def Let_def)

lemma fresh_keys: "load_valid_license_keys None = [''test-license-123'', ''prod-license-456'']"
  by (simp add: load_valid_license_keys_def)

lemma url_gainers: "url_map ''/api/gainers'' = Some Gainers"
  by (simp add: url_map_def)

lemma after_prefix_Cons:
  "after_prefix (c # cs) p = Some r \<Longrightarrow> \<exists>q. p = c # q \<and> after_prefix cs q = Some r"
  by (cases p) (auto split: if_splits)

lemma path_part_slash: "c \<noteq> CHR ''/'' \<Longrightarrow> path_part (CHR ''/'' # c # q) = CHR ''/'' # c # q"
  by (simp add: path_part_def)

lemma symbol_rule_path_part:
  assumes "symbol_rule (CHR ''/'' # c # pre) p = Some r" "c \<noteq> CHR ''/''"
  shows "path_part p = p"
proof -
  from assms(1) obtain r' where "after_prefix (CHR ''/'' # c # pre) p = Some r'"
    by (auto simp add: symbol_rule_def split: option.splits)
  then obtain q where "p = CHR ''/'' # c # q"
    by (auto dest!: after_prefix_Cons)
  with assms(2) show ?thesis by (simp add: path_part_slash)
qed

lemma static_rule_path_part:
  assumes "static_rule p = Some r"
  shows "path_part p = p"
proof -
  from assms obtain r' where "after_prefix ''/static/'' p = Some r'"
    by (auto simp add: static_rule_def split: option.splits)
  then obtain q where "p = CHR ''/'' # CHR ''s'' # q"
    by (auto dest!: after_prefix_Cons)
  then show ?thesis by (simp add: path_part_slash)
qed

lemma url_map_path_part:
  assumes "url_map p = Some ep"
  shows "path_part p = p"
  using assms
  by (auto simp add: url_map_def path_part_def split: if_splits option.splits
        dest: symbol_rule_path_part static_rule_path_part)

lemma app_url_map_gainers: "app_url_map p = Some Gainers \<Longrightarrow> p = ''/api/gainers''"
  by (auto simp add: app_url_map_def split: if_splits option.splits)

lemma merge_slashes_plain: "\<not> repeated_slash p \<Longrightarrow> merge_slashes p = p"
  by (induction p rule: merge_slashes.induct) auto

lemma path_part_plain:
  "p \<noteq> [] \<Longrightarrow> hd p = CHR ''/'' \<Longrightarrow> \<not> repeated_slash p \<Longrightarrow> path_part p = p"
proof (cases p)
  case Nil
  then show "p \<noteq> [] \<Longrightarrow> path_part p = p" by simp
next
  case (Cons a q)
  assume "hd p = CHR ''/''" "\<not> repeated_slash p"
  with Cons show "path_part p = p" by (cases q) (auto simp add: path_part_def)
qed

lemma dispatch_with_matched:
  assumes "rules (path req) = Some ep" "path_part (path req) = path req"
    "meth req = GET \<or> meth req = HEAD"
  shows "dispatch_with rules views on404 on500 req clk g =
     (case views ep req clk g of (Inl e, g') \<Rightarrow> (on500, g') | (Inr r, g') \<Rightarrow> (r, g'))"
proof -
  have "meth req \<noteq> OPTIONS" using assms(3) by auto
  then show ?thesis using assms by (auto simp add: dispatch_with_def)
qed

lemma dispatch_protected_valid:
  assumes "url_map (path req) = Some ep" "is_protected ep" "meth req = GET \<or> meth req = HEAD"
    "truthy (x_license_key req)" "key_in (x_license_key req) (VALID_LICENSE_KEYS g)"
  shows "dispatch V req clk g = (internal_error, g)"
proof -
  have "ep \<noteq> Health" using assms(2) by auto
  then show ?thesis
    using assms
    by (simp add: dispatch_def dispatch_with_matched url_map_path_part view_function_def
          require_license_valid)
qed

lemma dispatch_protected_invalid:
  assumes "url_map (path req) = Some ep" "is_protected ep" "meth req = GET \<or> meth req = HEAD"
    "\<not> key_in (x_license_key req) (VALID_LICENSE_KEYS g)"
  shows "dispatch V req clk g = (error_response ''Invalid license key'' 401, g)"
proof -
  have "ep \<noteq> Health" using assms(2) by auto
  then show ?thesis
    using assms
    by (simp add: dispatch_def dispatch_with_matched url_map_path_part view_function_def
          require_license_invalid)
qed

lemma app_dispatch_protected_invalid:
  assumes "app_url_map (path req) = Some Gainers" "meth req = GET \<or> meth req = HEAD"
    "\<not> key_in (x_license_key req) (VALID_LICENSE_KEYS g)"
  shows "app_dispatch V req clk g = (error_response ''Invalid license key'' 401, g)"
proof -
  from assms(1) have "path req = ''/api/gainers''" by (rule app_url_map_gainers)
  then have "path_part (path req) = path req" by (simp add: path_part_def)
  then show ?thesis
    using assms
    by (simp add: app_dispatch_def dispatch_with_matched app_view_function_def
          require_license_invalid)
qed

lemma dispatch_unknown:
  assumes "url_map (path req) = None" "path req \<noteq> []" "hd (path req) = CHR ''/''"
    "\<not> repeated_slash (path req)"
  shows "dispatch V req clk g = (not_found, g)"
proof -
  from assms(2,3,4) have "path_part (path req) = path req" by (rule path_part_plain)
  moreover from assms(4) have "merge_slashes (path req) = path req" by (rule merge_slashes_plain)
  ultimately show ?thesis using assms(1) by (simp add: dispatch_def dispatch_with_def)
qed

lemma dispatch_health:
  assumes "path req = ''/api/health''"
  shows "dispatch V req clk g =
     (if meth req = OPTIONS then framework_response 200
      else if meth req \<noteq> GET \<and> meth req \<noteq> HEAD then framework_response 405
      else health_check clk g, g)"
  using assms
  by (simp add: dispatch_def dispatch_with_def path_part_def url_map_def view_function_def)

lemma app_dispatch_health:
  assumes "path req = ''/api/health''"
  shows "app_dispatch V req clk g =
     (if meth req = OPTIONS then framework_response 200
      else if meth req \<noteq> GET \<and> meth req \<noteq> HEAD then framework_response 405
      else app_health_check clk g, g)"
  using assms
  by (simp add: app_dispatch_def dispatch_with_def path_part_def app_url_map_def
        app_view_function_def)

lemma serve_all_valid:
  assumes "\<forall>(req, clk) \<in> set rcs.
             (\<exists>ep. url_map (path req) = Some ep \<and> is_protected ep)
             \<and> (meth req = GET \<or> meth req = HEAD)
             \<and> truthy (x_license_key req)
             \<and> key_in (x_license_key req) (VALID_LICENSE_KEYS g)"
  shows "serve_all V rcs g = (replicate (length rcs) internal_error, g)"
  using assms
proof (induction rcs)
  case Nil
  then show ?case by simp
next
  case (Cons rc rcs)
  obtain req clk where rc: "rc = (req, clk)" by (cases rc)
  from Cons.prems rc obtain ep where
    "url_map (path req) = Some ep" "is_protected ep" "meth req = GET \<or> meth req = HEAD"
    "truthy (x_license_key req)" "key_in (x_license_key req) (VALID_LICENSE_KEYS g)"
    by auto
  then have d: "dispatch V req clk g = (internal_error, g)"
    by (rule dispatch_protected_valid)
  from Cons.prems have "serve_all V rcs g = (replicate (length rcs) internal_error, g)"
    by (intro Cons.IH) simp
  with d rc show ?case by simp
qed

lemma burst_valid:
  "\<forall>(req, clk) \<in> set (burst n).
     (\<exists>ep. url_map (path req) = Some ep \<and> is_protected ep)
     \<and> (meth req = GET \<or> meth req = HEAD)
     \<and> truthy (x_license_key req)
     \<and> key_in (x_license_key req) (VALID_LICENSE_KEYS fresh_globals)"
  by (auto simp add: burst_def gainers_request_def url_gainers truthy_def key_in_def
        fresh_globals_def fresh_keys)






section \<open>The license gate\<close>

text \<open>
  Claim C3. For every input string, \<^verbatim>\<open>validate_license_key\<close> returns valid exactly
  when the string is non-empty and a member of the allow-list, and invalid otherwise;
  the call leaves the module state, the rate-limit map included, as it was.
\<close>

theorem validate_license_key_iff:
  "fst (validate_license_key (Some s) g) = (s \<noteq> [] \<and> s \<in> set (VALID_LICENSE_KEYS g))
   \<and> snd (validate_license_key (Some s) g) = g"
  by (simp add: validate_license_key_def truthy_def key_in_def)

text \<open>
  Claim C9. The empty string is invalid for every allow-list, also for one that contains
  the empty string: setting \<^verbatim>\<open>VALID_LICENSE_KEYS\<close> to the empty string in the environment
  gives the allow-list with the empty string as its one entry, and the empty key is
  invalid against it, since the test for emptiness comes first.
\<close>

theorem empty_key_is_invalid:
  "fst (validate_license_key (Some []) g) = False
   \<and> load_valid_license_keys (Some []) = [[]]
   \<and> fst (validate_license_key (Some []) (g\<lparr>VALID_LICENSE_KEYS := load_valid_license_keys (Some [])\<rparr>)) = False"
  by (simp add: validate_license_key_def truthy_def load_valid_license_keys_def)

section \<open>The rate limiter\<close>

text \<open>
  Claim C1. The specified algorithm answers the first call of a credential on the empty
  map with allow and stores (count 1, window start now). The code, called with
  \<^verbatim>\<open>'test-license-123'\<close> at time 0 in the start-up state, raises
  \<^verbatim>\<open>UnboundLocalError\<close> instead and stores nothing.
\<close>

theorem rate_limit_check_first_call:
  "rate_limit_check (Some ''test-license-123'') 0 fresh_globals
     = (Inl UnboundLocalError, fresh_globals)
   \<and> rate_limit_spec (Some ''test-license-123'') 0 (request_counts fresh_globals)
     = (True, [Some ''test-license-123'' \<mapsto> \<lparr>count = 1, timestamp = 0\<rparr>])"
  by (simp add: rate_limit_check_raises rate_limit_spec_def fresh_globals_def)

text \<open>
  Claim C2. The pruning step of a call removes no entry of the shared map: every
  credential that has an entry before a call of \<^verbatim>\<open>rate_limit_check\<close> has one after
  it, and the entry of every credential other than the caller's is the same after the
  call as before, however old it is.
\<close>

theorem pruning_keeps_shared_entries:
  "dom (request_counts g) \<subseteq> dom (request_counts (snd (rate_limit_check k now g)))
   \<and> (\<forall>k'. k' \<noteq> k \<longrightarrow>
          request_counts (snd (rate_limit_check k now g)) k' = request_counts g k')"
  by (simp add: rate_limit_check_raises)

theorem pruning_keeps_shared_entries_witness:
  "Some ''prod-license-456'' \<noteq> Some ''test-license-123''
   \<and> Some ''test-license-123'' \<in> dom (request_counts
        (snd (rate_limit_check (Some ''prod-license-456'') 1000 exhausted_globals)))
   \<and> request_counts (snd (rate_limit_check (Some ''prod-license-456'') 1000 exhausted_globals))
        (Some ''test-license-123'') = Some \<lparr>count = 100, timestamp = 0\<rparr>"
  using pruning_keeps_shared_entries
          [of exhausted_globals "Some ''prod-license-456''" 1000]
  by (auto simp add: exhausted_globals_def)



section \<open>The endpoints\<close>

text \<open>
  Claim C4. 101 requests for \<^verbatim>\<open>/api/gainers\<close> with the valid key
  \<^verbatim>\<open>'test-license-123'\<close>, half a second apart, served from the start-up state: every one
  of them, the 101st included, is answered by the handler for status 500, and the
  rate-limit map is empty afterwards. No request is answered with 429.
\<close>

theorem burst_ends_in_500:
  "fst (serve_all V (burst 101) fresh_globals) = replicate 101 internal_error
   \<and> status internal_error = 500
   \<and> snd (serve_all V (burst 101) fresh_globals) = fresh_globals"
  using serve_all_valid [OF burst_valid [of 101], of V]
  by (simp add: burst_def internal_error_def error_response_def)

text \<open>
  Claim C7. For a credential that is not in the allow-list, an absent header included,
  the decorated function returns 401 with the body \<^verbatim>\<open>{error: "Invalid license key"}\<close>
  whatever the view is, so does every protected endpoint of both applications, and the
  module state with the rate-limit map is unchanged.
\<close>

theorem invalid_key_gets_401:
  assumes "\<not> key_in (x_license_key req) (VALID_LICENSE_KEYS g)"
  shows "require_license f req clk g
           = (Inr \<lparr>status = 401, body = Json [(''error'', JStr ''Invalid license key'')]\<rparr>, g)
     \<and> (\<forall>ep. url_map (path req) = Some ep \<longrightarrow> is_protected ep
            \<longrightarrow> meth req = GET \<or> meth req = HEAD
            \<longrightarrow> dispatch V req clk g
                = (\<lparr>status = 401, body = Json [(''error'', JStr ''Invalid license key'')]\<rparr>, g))
     \<and> (app_url_map (path req) = Some Gainers
            \<longrightarrow> meth req = GET \<or> meth req = HEAD
            \<longrightarrow> app_dispatch V req clk g
                = (\<lparr>status = 401, body = Json [(''error'', JStr ''Invalid license key'')]\<rparr>, g))"
  using assms
  by (simp add: require_license_invalid dispatch_protected_invalid
        app_dispatch_protected_invalid error_response_def)

theorem invalid_key_gets_401_witness:
  "\<not> key_in (x_license_key (gainers_request\<lparr>x_license_key := None\<rparr>))
        (VALID_LICENSE_KEYS exhausted_globals)
   \<and> url_map (path (gainers_request\<lparr>x_license_key := None\<rparr>)) = Some Gainers
   \<and> is_protected Gainers
   \<and> meth (gainers_request\<lparr>x_license_key := None\<rparr>) = GET
   \<and> dispatch gainers_down (gainers_request\<lparr>x_license_key := None\<rparr>) clock_a exhausted_globals
        = (\<lparr>status = 401, body = Json [(''error'', JStr ''Invalid license key'')]\<rparr>,
           exhausted_globals)
   \<and> \<not> key_in (x_license_key (gainers_request\<lparr>x_license_key := Some ''stolen-key''\<rparr>))
        (VALID_LICENSE_KEYS exhausted_globals)
   \<and> dispatch gainers_down (gainers_request\<lparr>x_license_key := Some ''stolen-key''\<rparr>) clock_a exhausted_globals
        = (\<lparr>status = 401, body = Json [(''error'', JStr ''Invalid license key'')]\<rparr>,
           exhausted_globals)"
proof -
  let ?absent = "gainers_request\<lparr>x_license_key := None\<rparr>"
  let ?wrong = "gainers_request\<lparr>x_license_key := Some ''stolen-key''\<rparr>"
  have keys: "VALID_LICENSE_KEYS exhausted_globals = [''test-license-123'', ''prod-license-456'']"
    by (simp add: exhausted_globals_def fresh_globals_def load_valid_license_keys_def)
  have a: "\<not> key_in (x_license_key ?absent) (VALID_LICENSE_KEYS exhausted_globals)"
    by (simp add: key_in_def)
  have w: "\<not> key_in (x_license_key ?wrong) (VALID_LICENSE_KEYS exhausted_globals)"
    by (simp add: key_in_def keys)
  have pa: "url_map (path ?absent) = Some Gainers" "url_map (path ?wrong) = Some Gainers"
    by (simp_all add: gainers_request_def url_map_def)
  have ma: "meth ?absent = GET" "meth ?wrong = GET"
    by (simp_all add: gainers_request_def)
  have p: "is_protected Gainers" by simp
  from invalid_key_gets_401 [OF a, of "gainers_down Gainers" clock_a gainers_down] pa(1) ma(1) p
  have ra: "dispatch gainers_down ?absent clock_a exhausted_globals
        = (\<lparr>status = 401, body = Json [(''error'', JStr ''Invalid license key'')]\<rparr>,
           exhausted_globals)"
    by blast
  from invalid_key_gets_401 [OF w, of "gainers_down Gainers" clock_a gainers_down] pa(2) ma(2) p
  have rw: "dispatch gainers_down ?wrong clock_a exhausted_globals
        = (\<lparr>status = 401, body = Json [(''error'', JStr ''Invalid license key'')]\<rparr>,
           exhausted_globals)"
    by blast
  from a w pa(1) ma(1) p ra rw show ?thesis by blast
qed

text \<open>
  Claim C8. A request whose path matches no URL rule of \<^verbatim>\<open>api_server.py\<close> is answered
  with 404 and the body \<^verbatim>\<open>{error: "Endpoint not found"}\<close>; the path is one as a client
  sends it, beginning with a slash and without two adjacent slashes, so that the
  router's slash merging does not come into play.
\<close>

theorem unknown_route_gets_404:
  assumes "url_map (path req) = None"
    and "path req \<noteq> []" and "hd (path req) = CHR ''/''"
    and "\<not> repeated_slash (path req)"
  shows "dispatch V req clk g
           = (\<lparr>status = 404, body = Json [(''error'', JStr ''Endpoint not found'')]\<rparr>, g)"
  using assms by (simp add: dispatch_unknown not_found_def error_response_def)

theorem unknown_route_gets_404_witness:
  "url_map (path \<lparr>meth = GET, path = ''/nope'', x_license_key = None, args = []\<rparr>) = None
   \<and> path \<lparr>meth = GET, path = ''/nope'', x_license_key = None, args = []\<rparr> \<noteq> []
   \<and> hd (path \<lparr>meth = GET, path = ''/nope'', x_license_key = None, args = []\<rparr>) = CHR ''/''
   \<and> \<not> repeated_slash (path \<lparr>meth = GET, path = ''/nope'', x_license_key = None, args = []\<rparr>)
   \<and> dispatch gainers_down \<lparr>meth = GET, path = ''/nope'', x_license_key = None, args = []\<rparr>
          clock_a fresh_globals
        = (\<lparr>status = 404, body = Json [(''error'', JStr ''Endpoint not found'')]\<rparr>, fresh_globals)"
proof -
  let ?req = "\<lparr>meth = GET, path = ''/nope'', x_license_key = None, args = []\<rparr>"
  have n: "url_map (path ?req) = None"
    by (simp add: url_map_def symbol_rule_def static_rule_def)
  have e: "path ?req \<noteq> []" by simp
  have h: "hd (path ?req) = CHR ''/''" by simp
  have r: "\<not> repeated_slash (path ?req)" by simp
  from n e h r unknown_route_gets_404 [OF n e h r, of gainers_down clock_a fresh_globals]
  show ?thesis by blast
qed

text \<open>
  Claim C10. Two requests for \<^verbatim>\<open>/api/health\<close> that differ in the license header
  only (and in the clock readings of their handling) get the same status and, the
  timestamp member apart, the same body, in \<^verbatim>\<open>api_server.py\<close> and in \<^verbatim>\<open>app.py\<close>;
  the request leaves the module state with the rate-limit map unchanged.
\<close>

theorem health_ignores_license_key:
  assumes "path req = ''/api/health''"
  shows "status (fst (dispatch V (req\<lparr>x_license_key := k\<rparr>) clk g))
           = status (fst (dispatch V (req\<lparr>x_license_key := k'\<rparr>) clk' g))
     \<and> without_timestamp (body (fst (dispatch V (req\<lparr>x_license_key := k\<rparr>) clk g)))
           = without_timestamp (body (fst (dispatch V (req\<lparr>x_license_key := k'\<rparr>) clk' g)))
     \<and> snd (dispatch V (req\<lparr>x_license_key := k\<rparr>) clk g) = g
     \<and> status (fst (app_dispatch V (req\<lparr>x_license_key := k\<rparr>) clk g))
           = status (fst (app_dispatch V (req\<lparr>x_license_key := k'\<rparr>) clk' g))
     \<and> without_timestamp (body (fst (app_dispatch V (req\<lparr>x_license_key := k\<rparr>) clk g)))
           = without_timestamp (body (fst (app_dispatch V (req\<lparr>x_license_key := k'\<rparr>) clk' g)))
     \<and> snd (app_dispatch V (req\<lparr>x_license_key := k\<rparr>) clk g) = g"
  using assms
  by (simp add: dispatch_health app_dispatch_health health_check_def app_health_check_def
        framework_response_def)

theorem health_ignores_license_key_witness:
  "path health_request = ''/api/health''
   \<and> fst (dispatch gainers_down (health_request\<lparr>x_license_key := None\<rparr>)
          clock_a exhausted_globals)
       = health_check clock_a exhausted_globals
   \<and> status (fst (dispatch gainers_down (health_request\<lparr>x_license_key := None\<rparr>)
                  clock_a exhausted_globals))
       = status (fst (dispatch gainers_down
                        (health_request\<lparr>x_license_key := Some ''test-license-123''\<rparr>)
                        clock_b exhausted_globals))
   \<and> snd (dispatch gainers_down (health_request\<lparr>x_license_key := None\<rparr>)
          clock_a exhausted_globals)
       = exhausted_globals"
proof -
  have p: "path health_request = ''/api/health''"
    by (simp add: health_request_def)
  have h: "fst (dispatch gainers_down (health_request\<lparr>x_license_key := None\<rparr>)
              clock_a exhausted_globals)
       = health_check clock_a exhausted_globals"
    by (simp add: dispatch_health health_request_def)
  from health_ignores_license_key [OF p, of gainers_down None clock_a exhausted_globals
         "Some ''test-license-123''" clock_b] p h
  show ?thesis by blast
qed

end
